theory Spec2Isabelle
  imports Main "HOL-Library.Sublist" "HOL-Library.Word"
begin

section \<open>Python values, strings and exceptions\<close>

text \<open>
  A Python \<open>str\<close> is a sequence of Unicode code points and a \<open>bytes\<close> object a
  sequence of 8-bit values. String literals of the source are written with \<open>lit\<close>.
\<close>

type_synonym pystr = "nat list"

type_synonym pybytes = "8 word list"

definition lit :: "string \<Rightarrow> pystr" where
  "lit s = map of_char s"

text \<open>
  The values a packet is built from. A dictionary is an association list with string
  keys; a lookup finds the first entry of a key.
\<close>

datatype pyval =
    PNone
  | PInt int
  | PStr pystr
  | PBytes pybytes
  | PDict "(pystr \<times> pyval) list"

text \<open>
  The exception classes the program can meet. \<open>KeyError\<close> carries the missing key;
  \<open>DeviceError\<close> stands for whatever the device library raises, told apart by a number.
\<close>

datatype exn =
    KeyError pystr
  | UnicodeDecodeError
  | FileNotFoundError
  | PermissionError
  | TypeError
  | AttributeError
  | DeviceError nat

text \<open>\<open>v[k]\<close>: a dictionary raises \<open>KeyError\<close> on a missing key, every other value of
  this universe raises \<open>TypeError\<close> when subscripted with a string.\<close>

fun getitem :: "pyval \<Rightarrow> pystr \<Rightarrow> exn + pyval" where
  "getitem (PDict kvs) k = (case map_of kvs k of None \<Rightarrow> Inl (KeyError k) | Some v \<Rightarrow> Inr v)"
| "getitem _ k = Inl TypeError"

text \<open>\<open>v.get(k, d)\<close>: only a dictionary has the method.\<close>

fun get_default :: "pyval \<Rightarrow> pystr \<Rightarrow> pyval \<Rightarrow> exn + pyval" where
  "get_default (PDict kvs) k d = (case map_of kvs k of None \<Rightarrow> Inr d | Some v \<Rightarrow> Inr v)"
| "get_default _ k d = Inl AttributeError"

subsection \<open>Strict UTF-8 decoding\<close>

definition cont :: "nat \<Rightarrow> bool" where
  "cont b = (128 \<le> b \<and> b < 192)"

text \<open>
  \<open>bytes.decode("utf-8")\<close> in its default strict mode: the well-formed byte sequences of
  the Unicode standard (no overlong forms, no surrogates, nothing above U+10FFFF);
  \<open>None\<close> is \<open>UnicodeDecodeError\<close>.
\<close>

fun utf8 :: "nat list \<Rightarrow> pystr option" where
  "utf8 [] = Some []"
| "utf8 (b0 # bs) =
     (if b0 < 128 then map_option ((#) b0) (utf8 bs)
      else if 194 \<le> b0 \<and> b0 < 224 then
        (case bs of
           b1 # r \<Rightarrow>
             if cont b1
             then map_option ((#) ((b0 - 192) * 64 + (b1 - 128))) (utf8 r)
             else None
         | _ \<Rightarrow> None)
      else if 224 \<le> b0 \<and> b0 < 240 then
        (case bs of
           b1 # b2 # r \<Rightarrow>
             if (if b0 = 224 then 160 else 128) \<le> b1
                \<and> b1 < (if b0 = 237 then 160 else 192) \<and> cont b2
             then map_option
                    ((#) ((b0 - 224) * 4096 + (b1 - 128) * 64 + (b2 - 128))) (utf8 r)
             else None
         | _ \<Rightarrow> None)
      else if 240 \<le> b0 \<and> b0 < 245 then
        (case bs of
           b1 # b2 # b3 # r \<Rightarrow>
             if (if b0 = 240 then 144 else 128) \<le> b1
                \<and> b1 < (if b0 = 244 then 144 else 192) \<and> cont b2 \<and> cont b3
             then map_option
                    ((#) ((b0 - 240) * 262144 + (b1 - 128) * 4096
                          + (b2 - 128) * 64 + (b3 - 128))) (utf8 r)
             else None
         | _ \<Rightarrow> None)
      else None)"

text \<open>\<open>v.decode("utf-8")\<close>: only \<open>bytes\<close> has the method.\<close>

fun decode_utf8 :: "pyval \<Rightarrow> exn + pystr" where
  "decode_utf8 (PBytes bs) =
     (case utf8 (map unat bs) of None \<Rightarrow> Inl UnicodeDecodeError | Some m \<Rightarrow> Inr m)"
| "decode_utf8 _ = Inl AttributeError"

subsection \<open>Whitespace\<close>

text \<open>\<open>str.isspace\<close> for one code point: the whitespace table of CPython.\<close>

definition isspace :: "nat \<Rightarrow> bool" where
  "isspace c =
     ((9 \<le> c \<and> c \<le> 13) \<or> (28 \<le> c \<and> c \<le> 32) \<or> c = 133 \<or> c = 160 \<or> c = 5760
      \<or> (8192 \<le> c \<and> c \<le> 8202) \<or> c = 8232 \<or> c = 8233 \<or> c = 8239 \<or> c = 8287
      \<or> c = 12288)"

text \<open>\<open>s.strip()\<close>: leading and trailing whitespace removed.\<close>

definition strip :: "pystr \<Rightarrow> pystr" where
  "strip s = rev (dropWhile isspace (rev (dropWhile isspace s)))"

subsection \<open>Text files\<close>

text \<open>
  Reading a file in text mode translates \<open>\r\n\<close> and a lone \<open>\r\<close> to \<open>\n\<close>;
  \<open>readlines\<close> then cuts after every \<open>\n\<close> and keeps it at the end of its line.
\<close>

fun universal_newlines :: "pystr \<Rightarrow> pystr" where
  "universal_newlines [] = []"
| "universal_newlines [c] = (if c = 13 then [10] else [c])"
| "universal_newlines (c # d # cs) =
     (if c = 13 \<and> d = 10 then 10 # universal_newlines cs
      else if c = 13 then 10 # universal_newlines (d # cs)
      else c # universal_newlines (d # cs))"

fun split_lines :: "pystr \<Rightarrow> pystr \<Rightarrow> pystr list" where
  "split_lines cur [] = (if cur = [] then [] else [cur])"
| "split_lines cur (c # cs) =
     (if c = 10 then (cur @ [10]) # split_lines [] cs else split_lines (cur @ [c]) cs)"

definition readlines :: "pystr \<Rightarrow> pystr list" where
  "readlines content = split_lines [] (universal_newlines content)"

text \<open>
  The file named by \<open>self.log_file\<close>: missing, present with its text, or present but
  closed to this process.
\<close>

datatype disk_file = Absent | Present pystr | Denied pystr

fun content :: "disk_file \<Rightarrow> pystr" where
  "content Absent = []"
| "content (Present c) = c"
| "content (Denied c) = c"

text \<open>\<open>open(path, "r")\<close> followed by reading everything.\<close>

fun open_read :: "disk_file \<Rightarrow> exn + pystr" where
  "open_read Absent = Inl FileNotFoundError"
| "open_read (Present c) = Inr c"
| "open_read (Denied c) = Inl PermissionError"

text \<open>\<open>open(path, "a")\<close>: creates a missing file; the result is the text already there.\<close>

fun open_append :: "disk_file \<Rightarrow> exn + pystr" where
  "open_append Absent = Inr []"
| "open_append (Present c) = Inr c"
| "open_append (Denied c) = Inl PermissionError"

section \<open>The device library and the window\<close>

text \<open>
  Each method of \<open>MeshtasticApp\<close> is a function from the state before the call to the
  exception that leaves the method (if any) and the state after it. What a method has
  done before an exception is raised stays done. Writing to the terminal and to a widget
  is taken never to fail, and the callback is taken to run between two user actions, not
  during one.
\<close>

text \<open>
  The handle returned by \<open>SerialInterface\<close>: its node table in the order of
  \<open>nodes.items()\<close>, and whether the receive callback has been assigned to it.
\<close>

record iface =
  nodes :: "(pyval \<times> pyval) list"
  onReceive :: bool

text \<open>
  What the program takes from outside: Python's formatting of a value inside an
  f-string, \<open>str(e)\<close> of an exception, the enum value
  \<open>mesh_pb2.PortNum.TEXT_MESSAGE_APP\<close>, and the outcome of each call into the device
  library (\<open>None\<close>: the call returns).
\<close>

record extern =
  fmt :: "pyval \<Rightarrow> pystr"
  exn_str :: "exn \<Rightarrow> pystr"
  TEXT_MESSAGE_APP :: int
  SerialInterface_result :: "exn + iface"
  sendText_raises :: "pystr \<Rightarrow> exn option"
  close_raises :: "exn option"

datatype call = CallSerialInterface | CallSendText pystr | CallClose

text \<open>
  The window with everything it can change: the widgets (each entry of
  \<open>message_list\<close> is one \<open>append\<close>), the terminal, the log file, the calls made into
  the device library so far, and whether the close event has been passed on.
\<close>

record app =
  interface :: "iface option"
  node_list :: "pystr list"
  message_list :: "pystr list"
  message_input :: pystr
  terminal :: "pystr list"
  log_file :: disk_file
  calls :: "call list"
  closed :: bool

definition init_app :: "disk_file \<Rightarrow> app" where
  "init_app f =
     \<lparr>interface = None, node_list = [lit ''Nodes will appear here...''],
      message_list = [], message_input = [], terminal = [], log_file = f,
      calls = [], closed = False\<rparr>"

text \<open>An operation returns the exception that leaves it, if any, and the state reached.\<close>

type_synonym outcome = "exn option \<times> app"

definition log_message :: "pystr \<Rightarrow> app \<Rightarrow> app" where
  "log_message message s =
     s\<lparr>terminal := terminal s @ [message], message_list := message_list s @ [message]\<rparr>"

subsection \<open>on_message_received\<close>

text \<open>
  The body of the \<open>try\<close> after the raw packet has been logged. The source looks
  \<open>packet["decoded"]\<close> up a second time for the payload; the packet has not changed, so
  the model uses the first result. The callback's second argument is never read.
\<close>

definition received_body :: "extern \<Rightarrow> pyval \<Rightarrow> app \<Rightarrow> outcome" where
  "received_body x packet s =
     (case getitem packet (lit ''decoded'') of Inl e \<Rightarrow> (Some e, s) | Inr d \<Rightarrow>
      case getitem d (lit ''portnum'') of Inl e \<Rightarrow> (Some e, s) | Inr portnum \<Rightarrow>
      if portnum = PInt (TEXT_MESSAGE_APP x) then
        (case getitem d (lit ''payload'') of Inl e \<Rightarrow> (Some e, s) | Inr payload \<Rightarrow>
         case decode_utf8 payload of Inl e \<Rightarrow> (Some e, s) | Inr message \<Rightarrow>
         case getitem packet (lit ''from'') of Inl e \<Rightarrow> (Some e, s) | Inr sender \<Rightarrow>
           let parsed_message = lit ''Message from '' @ fmt x sender @ lit '': '' @ message;
               s1 = log_message parsed_message s
           in case open_append (log_file s1) of
                Inl e \<Rightarrow> (Some e, s1)
              | Inr old \<Rightarrow> (None, s1\<lparr>log_file := Present (old @ parsed_message @ [10])\<rparr>))
      else (None, log_message (lit ''Received a non-text packet.'') s))"

definition on_message_received :: "extern \<Rightarrow> pyval \<Rightarrow> app \<Rightarrow> outcome" where
  "on_message_received x packet s =
     (let s1 = log_message (lit ''Raw packet received: '' @ fmt x packet) s
      in case received_body x packet s1 of
           (None, s2) \<Rightarrow> (None, s2)
         | (Some (KeyError k), s2) \<Rightarrow>
             (None, log_message (lit ''Missing key in packet: '' @ exn_str x (KeyError k)) s2)
         | (Some UnicodeDecodeError, s2) \<Rightarrow>
             (None, log_message (lit ''Error decoding message payload.'') s2)
         | (Some e, s2) \<Rightarrow>
             (None, log_message (lit ''Error processing message: '' @ exn_str x e) s2))"

subsection \<open>load_messages_from_file\<close>

definition load_messages_from_file :: "extern \<Rightarrow> app \<Rightarrow> outcome" where
  "load_messages_from_file x s =
     (let s1 = s\<lparr>message_list := []\<rparr>
      in case open_read (log_file s1) of
           Inr text \<Rightarrow>
             (None, fold (\<lambda>message t. t\<lparr>message_list := message_list t @ [strip message]\<rparr>)
                      (readlines text) s1)
         | Inl FileNotFoundError \<Rightarrow> (None, log_message (lit ''No message log file found.'') s1)
         | Inl e \<Rightarrow> (None, log_message (lit ''Error loading messages: '' @ exn_str x e) s1))"

subsection \<open>output_nodes\<close>

fun output_nodes_loop :: "extern \<Rightarrow> (pyval \<times> pyval) list \<Rightarrow> app \<Rightarrow> outcome" where
  "output_nodes_loop x [] s = (None, s)"
| "output_nodes_loop x ((node_id, node) # rest) s =
     (case get_default node (lit ''user'') (PDict []) of Inl e \<Rightarrow> (Some e, s) | Inr user \<Rightarrow>
      case get_default user (lit ''longName'') (PStr (lit ''Unknown Node'')) of
        Inl e \<Rightarrow> (Some e, s)
      | Inr node_name \<Rightarrow>
          let s1 = s\<lparr>node_list := node_list s @ [fmt x node_id @ lit '': '' @ fmt x node_name]\<rparr>;
              s2 = log_message (lit ''Node '' @ fmt x node_id @ lit '': '' @ fmt x node_name) s1
          in output_nodes_loop x rest s2)"

definition output_nodes :: "extern \<Rightarrow> app \<Rightarrow> outcome" where
  "output_nodes x s =
     (case interface s of
        Some i \<Rightarrow> output_nodes_loop x (nodes i) (s\<lparr>node_list := [lit ''Connected Nodes:'']\<rparr>)
      | None \<Rightarrow> (None, log_message (lit ''Device not connected. Please connect first.'') s))"

subsection \<open>connect_to_device\<close>

definition connect_to_device :: "extern \<Rightarrow> app \<Rightarrow> outcome" where
  "connect_to_device x s =
     (let s1 = log_message (lit ''Connecting to Meshtastic device on /dev/ttyACM0...'') s;
          s2 = s1\<lparr>calls := calls s1 @ [CallSerialInterface]\<rparr>;
          handler = (\<lambda>e t. (None, log_message (lit ''Error connecting to device: '' @ exn_str x e) t))
      in case SerialInterface_result x of
           Inl e \<Rightarrow> handler e s2
         | Inr i \<Rightarrow>
             (case output_nodes x (s2\<lparr>interface := Some (i\<lparr>onReceive := True\<rparr>)\<rparr>) of
                (Some e, s3) \<Rightarrow> handler e s3
              | (None, s3) \<Rightarrow> (None, log_message (lit ''Connected to Meshtastic device!'') s3)))"

subsection \<open>send_message\<close>

definition send_message :: "extern \<Rightarrow> app \<Rightarrow> outcome" where
  "send_message x s =
     (case interface s of
        Some i \<Rightarrow>
          (let message = strip (message_input s)
           in if message \<noteq> [] then
                (let s1 = s\<lparr>calls := calls s @ [CallSendText message]\<rparr>
                 in case sendText_raises x message of
                      Some e \<Rightarrow> (Some e, s1)
                    | None \<Rightarrow>
                        (None, (log_message (lit ''Sent message: '' @ message) s1)
                                 \<lparr>message_input := []\<rparr>))
              else (None, log_message (lit ''Cannot send an empty message.'') s))
      | None \<Rightarrow> (None, log_message (lit ''Device not connected. Please connect first.'') s))"

subsection \<open>closeEvent\<close>

definition closeEvent :: "extern \<Rightarrow> app \<Rightarrow> outcome" where
  "closeEvent x s =
     (case interface s of
        Some i \<Rightarrow>
          (let s1 = s\<lparr>calls := calls s @ [CallClose]\<rparr>
           in case close_raises x of
                Some e \<Rightarrow> (Some e, s1)
              | None \<Rightarrow> (None, s1\<lparr>closed := True\<rparr>))
      | None \<Rightarrow> (None, s\<lparr>closed := True\<rparr>))"

section \<open>Notions the properties are stated with\<close>

text \<open>A value lacks a key when it is a dictionary and subscripting it with the key raises
  \<open>KeyError\<close>.\<close>

definition lacks :: "pyval \<Rightarrow> pystr \<Rightarrow> bool" where
  "lacks v k = (getitem v k = Inl (KeyError k))"

text \<open>
  A later state of the log file keeps an earlier one: the old text is still there, at the
  start, and a file that existed still exists.
\<close>

definition preserved :: "disk_file \<Rightarrow> disk_file \<Rightarrow> bool" where
  "preserved f g = (prefix (content f) (content g) \<and> (f \<noteq> Absent \<longrightarrow> g \<noteq> Absent))"

text \<open>
  A text holds no line break when it has neither a line feed nor a carriage return, the
  characters at which text-mode reading ends a line.
\<close>

definition one_line :: "pystr \<Rightarrow> bool" where
  "one_line s = (10 \<notin> set s \<and> 13 \<notin> set s)"

text \<open>
  The callback reports a failure with a given line: nothing is raised, the log file is
  as before, and the visible log has gained the raw packet line and then that line.
\<close>

definition reports :: "extern \<Rightarrow> pyval \<Rightarrow> app \<Rightarrow> pystr \<Rightarrow> bool" where
  "reports x packet s line =
     (fst (on_message_received x packet s) = None
      \<and> log_file (snd (on_message_received x packet s)) = log_file s
      \<and> message_list (snd (on_message_received x packet s))
          = message_list s @ [lit ''Raw packet received: '' @ fmt x packet, line])"

section \<open>Concrete inputs\<close>

text \<open>
  An environment to run the program in: \<open>str\<close> of an integer in decimal, of a string
  itself, a placeholder for every other value; \<open>str\<close> of a \<open>KeyError\<close> is its key in
  quotes; the marker is 1, its value in the device library; no call into the library
  raises.
\<close>

fun digits :: "nat \<Rightarrow> pystr" where
  "digits n = (if n < 10 then [48 + n] else digits (n div 10) @ [48 + n mod 10])"

declare digits.simps [simp del]

definition ex_fmt :: "pyval \<Rightarrow> pystr" where
  "ex_fmt v = (case v of PInt n \<Rightarrow> (if n < 0 then 45 # digits (nat (- n)) else digits (nat n))
                 | PStr s \<Rightarrow> s | _ \<Rightarrow> lit ''{...}'')"

definition ex_exn_str :: "exn \<Rightarrow> pystr" where
  "ex_exn_str e =
     (case e of
        KeyError k \<Rightarrow> [39] @ k @ [39]
      | PermissionError \<Rightarrow> lit ''[Errno 13] Permission denied''
      | DeviceError n \<Rightarrow> lit ''device error''
      | _ \<Rightarrow> [])"

definition ex_env :: extern where
  "ex_env =
     \<lparr>fmt = ex_fmt, exn_str = ex_exn_str, TEXT_MESSAGE_APP = 1,
      SerialInterface_result = Inr \<lparr>nodes = [], onReceive = False\<rparr>,
      sendText_raises = (\<lambda>m. None), close_raises = None\<rparr>"

text \<open>The same environment with a device that refuses every text.\<close>

definition failing_env :: extern where
  "failing_env = ex_env\<lparr>sendText_raises := (\<lambda>m. Some (DeviceError 0))\<rparr>"

text \<open>A text message \<open>hi\<close> from node 42; a position report whose payload is not UTF-8; a
  text message whose payload is not UTF-8.\<close>

definition text_packet :: pyval where
  "text_packet =
     PDict [(lit ''from'', PInt 42),
            (lit ''decoded'', PDict [(lit ''portnum'', PInt 1), (lit ''payload'', PBytes [104, 105])])]"

definition binary_packet :: pyval where
  "binary_packet =
     PDict [(lit ''from'', PInt 42),
            (lit ''decoded'', PDict [(lit ''portnum'', PInt 3), (lit ''payload'', PBytes [255])])]"

definition garbled_packet :: pyval where
  "garbled_packet =
     PDict [(lit ''from'', PInt 42),
            (lit ''decoded'', PDict [(lit ''portnum'', PInt 1), (lit ''payload'', PBytes [255])])]"

text \<open>
  Packets that cannot be read: without \<open>decoded\<close>, without \<open>portnum\<close>, a text message
  without \<open>payload\<close>, one without \<open>from\<close>, and one whose payload is a \<open>str\<close>. And a
  text message whose payload is \<open>a\<close>, a line feed, \<open>b\<close>.
\<close>

definition empty_packet :: pyval where
  "empty_packet = PDict [(lit ''from'', PInt 42)]"

definition no_portnum_packet :: pyval where
  "no_portnum_packet = PDict [(lit ''from'', PInt 42), (lit ''decoded'', PDict [])]"

definition no_payload_packet :: pyval where
  "no_payload_packet =
     PDict [(lit ''from'', PInt 42), (lit ''decoded'', PDict [(lit ''portnum'', PInt 1)])]"

definition anonymous_packet :: pyval where
  "anonymous_packet =
     PDict [(lit ''decoded'', PDict [(lit ''portnum'', PInt 1), (lit ''payload'', PBytes [104, 105])])]"

definition str_payload_packet :: pyval where
  "str_payload_packet =
     PDict [(lit ''decoded'', PDict [(lit ''portnum'', PInt 1), (lit ''payload'', PStr (lit ''hi''))])]"

definition two_line_packet :: pyval where
  "two_line_packet =
     PDict [(lit ''from'', PInt 42),
            (lit ''decoded'', PDict [(lit ''portnum'', PInt 1), (lit ''payload'', PBytes [97, 10, 98])])]"

text \<open>The window after a connection, with the given text in the input box.\<close>

definition connected_app :: "pystr \<Rightarrow> app" where
  "connected_app inp =
     (init_app Absent)\<lparr>interface := Some \<lparr>nodes = [], onReceive = True\<rparr>, message_input := inp\<rparr>"

section \<open>Evaluation and helper lemmas\<close>

lemmas ex_defs = ex_env_def failing_env_def text_packet_def binary_packet_def garbled_packet_def
  connected_app_def init_app_def ex_fmt_def ex_exn_str_def lit_def digits.simps Let_def
  empty_packet_def no_portnum_packet_def no_payload_packet_def anonymous_packet_def
  str_payload_packet_def two_line_packet_def

text \<open>The decoder on well-formed and ill-formed input: ASCII, a three-byte and a four-byte
  sequence, a stray byte, an overlong form and a surrogate.\<close>

lemma utf8_examples:
  "utf8 (map unat [0x68 :: 8 word, 0x69]) = Some (lit ''hi'')"
  "utf8 (map unat [0xe2 :: 8 word, 0x82, 0xac]) = Some [8364]"
  "utf8 (map unat [0xf0 :: 8 word, 0x9f, 0x98, 0x80]) = Some [128512]"
  "utf8 (map unat [0xff :: 8 word]) = None"
  "utf8 (map unat [0xc0 :: 8 word, 0x80]) = None"
  "utf8 (map unat [0xed :: 8 word, 0xa0, 0x80]) = None"
  by (simp_all add: lit_def cont_def)

lemma readlines_example:
  "readlines (lit ''a'' @ [13, 10] @ lit '' b '' @ [10] @ lit ''c'')
     = [lit ''a'' @ [10], lit '' b '' @ [10], lit ''c'']"
  by (simp add: lit_def readlines_def)

text \<open>
  Reading lines: text without a carriage return is read as it is; a text without line
  break followed by a line feed is one line; appended to a file that is empty or ends
  with a line feed, it adds exactly that line to the lines of the file.
\<close>

lemma universal_newlines_id: "13 \<notin> set s \<Longrightarrow> universal_newlines s = s"
  by (induction s rule: universal_newlines.induct) auto

lemma universal_newlines_append:
  "a = [] \<or> last a \<noteq> 13 \<Longrightarrow> universal_newlines (a @ b) = universal_newlines a @ universal_newlines b"
proof (induction a rule: universal_newlines.induct)
  case 1 then show ?case by simp
next
  case (2 c)
  then show ?case by (cases b) auto
next
  case (3 c d cs)
  then show ?case by (auto split: if_splits)
qed

lemma universal_newlines_last:
  "a \<noteq> [] \<Longrightarrow> last a = 10 \<Longrightarrow> universal_newlines a \<noteq> [] \<and> last (universal_newlines a) = 10"
  by (induction a rule: universal_newlines.induct) (auto split: if_splits)

lemma split_lines_one: "10 \<notin> set s \<Longrightarrow> split_lines cur (s @ [10]) = [cur @ s @ [10]]"
  by (induction s arbitrary: cur) auto

lemma split_lines_append:
  "a \<noteq> [] \<Longrightarrow> last a = 10 \<Longrightarrow> split_lines cur (a @ b) = split_lines cur a @ split_lines [] b"
proof (induction a arbitrary: cur)
  case Nil then show ?case by simp
next
  case (Cons c a)
  then show ?case by (cases "a = []") auto
qed

lemma readlines_one: "one_line s \<Longrightarrow> readlines (s @ [10]) = [s @ [10]]"
  by (simp add: readlines_def one_line_def universal_newlines_id split_lines_one)

lemma readlines_append_line:
  assumes "old = [] \<or> last old = 10" and "one_line s"
  shows "readlines (old @ s @ [10]) = readlines old @ [s @ [10]]"
proof (cases "old = []")
  case True
  with assms(2) show ?thesis by (simp add: readlines_one) (simp add: readlines_def)
next
  case False
  with assms(1) have l: "last old = 10" by simp
  with False have "universal_newlines (old @ s @ [10])
      = universal_newlines old @ universal_newlines (s @ [10])"
    by (simp add: universal_newlines_append)
  moreover have "universal_newlines (s @ [10]) = s @ [10]"
    using assms(2) by (simp add: universal_newlines_id one_line_def)
  ultimately show ?thesis
    using universal_newlines_last [OF False l] assms(2)
    by (simp add: readlines_def split_lines_append split_lines_one one_line_def)
qed

lemma one_line_lit:
  "one_line (lit ''Message from '')" "one_line (lit '': '')" "one_line (lit ''Raw packet received: '')"
  by (simp_all add: one_line_def lit_def)

lemma one_line_append: "one_line (a @ b) \<longleftrightarrow> one_line a \<and> one_line b"
  by (auto simp: one_line_def)

text \<open>Stripping leaves nothing exactly when every character is whitespace, and changes
  nothing when neither end is whitespace.\<close>

lemma strip_Nil_iff: "strip s = [] \<longleftrightarrow> (\<forall>c\<in>set s. isspace c)"
proof -
  have "strip s = [] \<longleftrightarrow> (\<forall>c\<in>set (dropWhile isspace s). isspace c)"
    by (simp add: strip_def)
  also have "\<dots> \<longleftrightarrow> dropWhile isspace s = []"
  proof (cases "dropWhile isspace s")
    case Nil then show ?thesis by (simp del: dropWhile_eq_Nil_conv)
  next
    case (Cons a r)
    then have "\<not> isspace a" using hd_dropWhile[of isspace s] by auto
    with Cons show ?thesis by auto
  qed
  also have "\<dots> \<longleftrightarrow> (\<forall>c\<in>set s. isspace c)"
    by (simp add: dropWhile_eq_Nil_conv)
  finally show ?thesis .
qed

lemma strip_id:
  assumes "s \<noteq> []" and "\<not> isspace (hd s)" and "\<not> isspace (last s)"
  shows "strip s = s"
proof -
  from assms(1,2) have a: "dropWhile isspace s = s"
    by (cases s) simp_all
  from assms(1,3) have "dropWhile isspace (rev s) = rev s"
    by (cases "rev s") (simp_all add: hd_rev)
  with a show ?thesis by (simp add: strip_def)
qed

text \<open>Listing the nodes touches neither the log file nor the device.\<close>

lemma output_nodes_loop_log:
  "log_file (snd (output_nodes_loop x ns s)) = log_file s"
  by (induction x ns s rule: output_nodes_loop.induct)
     (simp_all add: log_message_def Let_def split: sum.splits)

lemma output_nodes_loop_calls:
  "calls (snd (output_nodes_loop x ns s)) = calls s"
  by (induction x ns s rule: output_nodes_loop.induct)
     (simp_all add: log_message_def Let_def split: sum.splits)

text \<open>The callback either leaves the log file as it is or appends one text ending in a
  line feed.\<close>

lemma received_body_log:
  "log_file (snd (received_body x packet s)) = log_file s
   \<or> (\<exists>a. log_file (snd (received_body x packet s))
             = Present (content (log_file s) @ a @ [10]))"
  by (cases "log_file s")
     (auto simp: received_body_def log_message_def Let_def split: sum.splits)

lemma on_message_received_log:
  "log_file (snd (on_message_received x packet s)) = log_file s
   \<or> (\<exists>a. log_file (snd (on_message_received x packet s))
             = Present (content (log_file s) @ a @ [10]))"
  using received_body_log
    [of x packet "log_message (lit ''Raw packet received: '' @ fmt x packet) s"]
  by (auto simp: on_message_received_def log_message_def Let_def
           split: prod.splits option.splits exn.splits)

section \<open>Properties\<close>

subsection \<open>Receiving a text message\<close>

text \<open>
  Claim C1 says that a text packet with a decodable payload adds exactly one line to the
  visible log and one to the log file. The callback logs the raw packet first, so the
  visible log gains two entries: for the message \<open>hi\<close> from node 42 they are the raw
  packet line and \<open>Message from 42: hi\<close>, not the message line alone.
\<close>

theorem text_packet_logs_two_lines:
  "message_list (snd (on_message_received ex_env text_packet (init_app Absent)))
     = message_list (init_app Absent) @ [lit ''Raw packet received: {...}'', lit ''Message from 42: hi'']
   \<and> message_list (snd (on_message_received ex_env text_packet (init_app Absent)))
     \<noteq> message_list (init_app Absent) @ [lit ''Message from 42: hi'']"
  by (simp add: ex_defs on_message_received_def received_body_def log_message_def)

text \<open>
  Claim C1 as the code has it, for texts without line break: for a packet whose
  \<open>decoded\<close> entry has the text marker as \<open>portnum\<close> and a \<open>bytes\<close> payload that is
  well-formed UTF-8, that has a \<open>from\<close> entry, where neither the formatted packet, the
  formatted sender nor the message holds a line break, and with a log file that can be
  opened for appending, the callback raises nothing; it appends exactly two lines to the
  visible log, the raw packet line and then \<open>Message from {sender}: {message}\<close>; and it
  appends exactly one line to the log file, that same message line: the text written is
  one line, and a file that was empty or ended with a line feed reads back as its old
  lines followed by the new one.
\<close>

theorem text_packet_logged_and_saved:
  assumes "getitem packet (lit ''decoded'') = Inr d"
    and "getitem d (lit ''portnum'') = Inr (PInt (TEXT_MESSAGE_APP x))"
    and "getitem d (lit ''payload'') = Inr (PBytes bs)"
    and "utf8 (map unat bs) = Some message"
    and "getitem packet (lit ''from'') = Inr sender"
    and "open_append (log_file s) = Inr old"
    and "one_line (fmt x packet)" and "one_line (fmt x sender)" and "one_line message"
  shows "fst (on_message_received x packet s) = None
    \<and> message_list (snd (on_message_received x packet s))
        = message_list s @ [lit ''Raw packet received: '' @ fmt x packet,
                            lit ''Message from '' @ fmt x sender @ lit '': '' @ message]
    \<and> one_line (lit ''Raw packet received: '' @ fmt x packet)
    \<and> one_line (lit ''Message from '' @ fmt x sender @ lit '': '' @ message)
    \<and> log_file (snd (on_message_received x packet s))
        = Present (old @ (lit ''Message from '' @ fmt x sender @ lit '': '' @ message) @ [10])
    \<and> readlines ((lit ''Message from '' @ fmt x sender @ lit '': '' @ message) @ [10])
        = [(lit ''Message from '' @ fmt x sender @ lit '': '' @ message) @ [10]]
    \<and> (old = [] \<or> last old = 10 \<longrightarrow>
          readlines (old @ (lit ''Message from '' @ fmt x sender @ lit '': '' @ message) @ [10])
            = readlines old @ [(lit ''Message from '' @ fmt x sender @ lit '': '' @ message) @ [10]])"
proof -
  let ?line = "lit ''Message from '' @ fmt x sender @ lit '': '' @ message"
  have l: "one_line ?line"
    using assms(8,9) by (simp add: one_line_append one_line_lit)
  have r: "one_line (lit ''Raw packet received: '' @ fmt x packet)"
    using assms(7) by (simp add: one_line_append one_line_lit)
  have a: "fst (on_message_received x packet s) = None
    \<and> message_list (snd (on_message_received x packet s))
        = message_list s @ [lit ''Raw packet received: '' @ fmt x packet, ?line]
    \<and> log_file (snd (on_message_received x packet s)) = Present (old @ ?line @ [10])"
    using assms(1-6)
    by (simp add: on_message_received_def received_body_def log_message_def Let_def)
  have b: "readlines (?line @ [10]) = [?line @ [10]]"
    using l by (rule readlines_one)
  have c: "old = [] \<or> last old = 10 \<longrightarrow>
          readlines (old @ ?line @ [10]) = readlines old @ [?line @ [10]]"
    using readlines_append_line [of old ?line] l by blast
  from a b c l r show ?thesis by blast
qed

theorem text_packet_logged_and_saved_witness:
  "message_list (snd (on_message_received ex_env text_packet (init_app (Present (lit ''old'' @ [10])))))
     = [lit ''Raw packet received: {...}'', lit ''Message from 42: hi'']
   \<and> log_file (snd (on_message_received ex_env text_packet (init_app (Present (lit ''old'' @ [10])))))
     = Present (lit ''old'' @ [10] @ lit ''Message from 42: hi'' @ [10])
   \<and> readlines (lit ''old'' @ [10] @ lit ''Message from 42: hi'' @ [10])
     = readlines (lit ''old'' @ [10]) @ [lit ''Message from 42: hi'' @ [10]]"
  using text_packet_logged_and_saved [of text_packet "PDict [(lit ''portnum'', PInt 1), (lit ''payload'', PBytes [104, 105])]"
      ex_env "[104, 105]" "lit ''hi''" "PInt 42" "init_app (Present (lit ''old'' @ [10]))"
      "lit ''old'' @ [10]"]
  by (simp add: ex_defs one_line_def)

text \<open>A message that holds a line feed is outside that statement: its one entry in the
  log file reads back as two lines.\<close>

lemma line_feed_in_payload:
  "log_file (snd (on_message_received ex_env two_line_packet (init_app Absent)))
     = Present (lit ''Message from 42: a'' @ [10] @ lit ''b'' @ [10])
   \<and> readlines (lit ''Message from 42: a'' @ [10] @ lit ''b'' @ [10])
     = [lit ''Message from 42: a'' @ [10], lit ''b'' @ [10]]"
  by (simp add: ex_defs on_message_received_def received_body_def log_message_def readlines_def)

subsection \<open>Failures are reported, not raised\<close>

text \<open>The three methods that wrap their body in \<open>try\<close> let no exception out.\<close>

lemma on_message_received_caught: "fst (on_message_received x packet s) = None"
  by (simp add: on_message_received_def Let_def split: prod.splits option.splits exn.splits)

lemma load_messages_caught: "fst (load_messages_from_file x s) = None"
  by (simp add: load_messages_from_file_def Let_def split: sum.splits exn.splits)

lemma connect_caught: "fst (connect_to_device x s) = None"
  by (simp add: connect_to_device_def Let_def split: sum.splits prod.splits option.splits)

text \<open>
  Claim C2 says that every failure, also one raised by the send primitive during
  \<open>send_message\<close>, is caught and turned into a log line. \<open>send_message\<close> has no
  handler: with a connected device that refuses the text \<open>hi\<close>, the exception leaves
  \<open>send_message\<close> and no line is logged.
\<close>

theorem send_message_propagates_device_error:
  "fst (send_message failing_env (connected_app (lit ''hi''))) = Some (DeviceError 0)
   \<and> message_list (snd (send_message failing_env (connected_app (lit ''hi''))))
       = message_list (connected_app (lit ''hi''))"
  by (simp add: ex_defs send_message_def log_message_def strip_def isspace_def)

subsection \<open>Sending\<close>

text \<open>
  Claim C3: while connected, an input box that is empty or holds only whitespace makes
  \<open>send_message\<close> call nothing in the device library and append the refusal line to
  the visible log.
\<close>

theorem blank_input_refused:
  assumes "interface s = Some i" and "\<forall>c\<in>set (message_input s). isspace c"
  shows "fst (send_message x s) = None
    \<and> calls (snd (send_message x s)) = calls s
    \<and> message_list (snd (send_message x s))
        = message_list s @ [lit ''Cannot send an empty message.'']"
proof -
  from assms(2) have "strip (message_input s) = []"
    by (simp add: strip_Nil_iff)
  with assms(1) show ?thesis
    by (simp add: send_message_def log_message_def)
qed

theorem blank_input_refused_witness:
  "calls (snd (send_message ex_env (connected_app [32, 9, 32]))) = []
   \<and> message_list (snd (send_message ex_env (connected_app [32, 9, 32])))
       = [lit ''Cannot send an empty message.'']"
  using blank_input_refused [of "connected_app [32, 9, 32]" "\<lparr>nodes = [], onReceive = True\<rparr>" ex_env]
  by (simp add: connected_app_def init_app_def isspace_def)

text \<open>
  Claim C4 says that a non-empty input is forwarded character for character and that only
  empty inputs are refused. The input \<open>" hi "\<close> is sent as \<open>"hi"\<close>: the text the device
  library receives is not the content of the box.
\<close>

theorem send_message_strips_input:
  "calls (snd (send_message ex_env (connected_app (lit '' hi '')))) = [CallSendText (lit ''hi'')]
   \<and> lit ''hi'' \<noteq> message_input (connected_app (lit '' hi ''))"
  by (simp add: ex_defs send_message_def log_message_def strip_def isspace_def)

text \<open>
  Claim C4 as the code has it: while connected, an input with something other than
  whitespace in it is passed to the send primitive with its leading and trailing
  whitespace removed (unchanged when it neither starts nor ends with whitespace); the
  inputs refused are exactly those made of whitespace only, the empty one among them.
\<close>

theorem send_message_forwards_stripped:
  assumes "interface s = Some i"
  shows "(strip (message_input s) \<noteq> [] \<longrightarrow>
            calls (snd (send_message x s)) = calls s @ [CallSendText (strip (message_input s))])
    \<and> (strip (message_input s) = [] \<longrightarrow>
            calls (snd (send_message x s)) = calls s
            \<and> message_list (snd (send_message x s))
                = message_list s @ [lit ''Cannot send an empty message.''])
    \<and> (strip (message_input s) = [] \<longleftrightarrow> (\<forall>c\<in>set (message_input s). isspace c))
    \<and> (message_input s \<noteq> [] \<and> \<not> isspace (hd (message_input s))
          \<and> \<not> isspace (last (message_input s)) \<longrightarrow>
            strip (message_input s) = message_input s)"
proof -
  have "strip (message_input s) \<noteq> [] \<longrightarrow>
          calls (snd (send_message x s)) = calls s @ [CallSendText (strip (message_input s))]"
    using assms
    by (simp add: send_message_def log_message_def Let_def split: option.splits)
  moreover have "strip (message_input s) = [] \<longrightarrow>
          calls (snd (send_message x s)) = calls s
          \<and> message_list (snd (send_message x s))
              = message_list s @ [lit ''Cannot send an empty message.'']"
    using assms by (simp add: send_message_def log_message_def)
  moreover have "strip (message_input s) = [] \<longleftrightarrow> (\<forall>c\<in>set (message_input s). isspace c)"
    by (rule strip_Nil_iff)
  moreover have "message_input s \<noteq> [] \<and> \<not> isspace (hd (message_input s))
          \<and> \<not> isspace (last (message_input s)) \<longrightarrow>
            strip (message_input s) = message_input s"
    by (simp add: strip_id)
  ultimately show ?thesis by blast
qed

theorem send_message_forwards_stripped_witness:
  "calls (snd (send_message ex_env (connected_app (lit '' hi '')))) = [CallSendText (lit ''hi'')]
   \<and> calls (snd (send_message ex_env (connected_app (lit ''hi'')))) = [CallSendText (lit ''hi'')]
   \<and> calls (snd (send_message ex_env (connected_app [32]))) = []"
  using send_message_forwards_stripped [of "connected_app (lit '' hi '')" "\<lparr>nodes = [], onReceive = True\<rparr>" ex_env]
    send_message_forwards_stripped [of "connected_app (lit ''hi'')" "\<lparr>nodes = [], onReceive = True\<rparr>" ex_env]
    send_message_forwards_stripped [of "connected_app [32]" "\<lparr>nodes = [], onReceive = True\<rparr>" ex_env]
  by (simp add: connected_app_def init_app_def lit_def strip_def isspace_def)

subsection \<open>Receiving a packet that cannot be read\<close>

text \<open>
  Claim C5: a packet that lacks an expected key, or whose payload fails UTF-8 decoding,
  yields exactly one log line describing the failure, no write to the log file, and no
  exception. The keys the callback expects are \<open>decoded\<close> and its \<open>portnum\<close> in every
  packet, and \<open>payload\<close> and \<open>from\<close> in a text message; the payload is decoded in a text
  message only. In each case the visible log gains the raw packet line, which is logged
  for every packet, and one further line, which names the failure that occurred: the
  missing key (the first one the callback reaches), the decoding error, or, for a payload
  that is not \<open>bytes\<close> and so cannot be decoded at all, the exception's text.
\<close>

theorem failed_packet_one_failure_line:
  "(lacks packet (lit ''decoded'') \<longrightarrow>
      reports x packet s (lit ''Missing key in packet: '' @ exn_str x (KeyError (lit ''decoded''))))
   \<and> (getitem packet (lit ''decoded'') = Inr d \<and> lacks d (lit ''portnum'') \<longrightarrow>
      reports x packet s (lit ''Missing key in packet: '' @ exn_str x (KeyError (lit ''portnum''))))
   \<and> (getitem packet (lit ''decoded'') = Inr d
        \<and> getitem d (lit ''portnum'') = Inr (PInt (TEXT_MESSAGE_APP x))
        \<and> lacks d (lit ''payload'') \<longrightarrow>
      reports x packet s (lit ''Missing key in packet: '' @ exn_str x (KeyError (lit ''payload''))))
   \<and> (getitem packet (lit ''decoded'') = Inr d
        \<and> getitem d (lit ''portnum'') = Inr (PInt (TEXT_MESSAGE_APP x))
        \<and> getitem d (lit ''payload'') = Inr (PBytes bs) \<and> utf8 (map unat bs) = None \<longrightarrow>
      reports x packet s (lit ''Error decoding message payload.''))
   \<and> (getitem packet (lit ''decoded'') = Inr d
        \<and> getitem d (lit ''portnum'') = Inr (PInt (TEXT_MESSAGE_APP x))
        \<and> getitem d (lit ''payload'') = Inr (PBytes bs) \<and> utf8 (map unat bs) = Some message
        \<and> lacks packet (lit ''from'') \<longrightarrow>
      reports x packet s (lit ''Missing key in packet: '' @ exn_str x (KeyError (lit ''from''))))
   \<and> (getitem packet (lit ''decoded'') = Inr d
        \<and> getitem d (lit ''portnum'') = Inr (PInt (TEXT_MESSAGE_APP x))
        \<and> getitem d (lit ''payload'') = Inr v \<and> (\<forall>b. v \<noteq> PBytes b) \<longrightarrow>
      reports x packet s (lit ''Error processing message: '' @ exn_str x AttributeError))"
proof -
  have "getitem d (lit ''payload'') = Inr v \<and> (\<forall>b. v \<noteq> PBytes b) \<longrightarrow>
          decode_utf8 v = Inl AttributeError"
    by (cases v) simp_all
  then show ?thesis
    by (auto simp: reports_def lacks_def on_message_received_def received_body_def
                   log_message_def Let_def)
qed

theorem failed_packet_one_failure_line_witness:
  "reports ex_env empty_packet (init_app Absent)
     (lit ''Missing key in packet: '' @ [39] @ lit ''decoded'' @ [39])
   \<and> reports ex_env no_portnum_packet (init_app Absent)
     (lit ''Missing key in packet: '' @ [39] @ lit ''portnum'' @ [39])
   \<and> reports ex_env no_payload_packet (init_app Absent)
     (lit ''Missing key in packet: '' @ [39] @ lit ''payload'' @ [39])
   \<and> reports ex_env garbled_packet (init_app Absent) (lit ''Error decoding message payload.'')
   \<and> reports ex_env anonymous_packet (init_app Absent)
     (lit ''Missing key in packet: '' @ [39] @ lit ''from'' @ [39])
   \<and> reports ex_env str_payload_packet (init_app Absent) (lit ''Error processing message: '')
   \<and> message_list (snd (on_message_received ex_env garbled_packet (init_app Absent)))
       = [lit ''Raw packet received: {...}'', lit ''Error decoding message payload.'']
   \<and> log_file (snd (on_message_received ex_env garbled_packet (init_app Absent))) = Absent"
  using failed_packet_one_failure_line [where packet = empty_packet and x = ex_env and s = "init_app Absent"]
    failed_packet_one_failure_line [where packet = no_portnum_packet and x = ex_env and s = "init_app Absent"
      and d = "PDict []"]
    failed_packet_one_failure_line [where packet = no_payload_packet and x = ex_env and s = "init_app Absent"
      and d = "PDict [(lit ''portnum'', PInt 1)]"]
    failed_packet_one_failure_line [where packet = garbled_packet and x = ex_env and s = "init_app Absent"
      and d = "PDict [(lit ''portnum'', PInt 1), (lit ''payload'', PBytes [255])]"
      and bs = "[255]"]
    failed_packet_one_failure_line [where packet = anonymous_packet and x = ex_env and s = "init_app Absent"
      and d = "PDict [(lit ''portnum'', PInt 1), (lit ''payload'', PBytes [104, 105])]"
      and bs = "[104, 105]" and message = "lit ''hi''"]
    failed_packet_one_failure_line [where packet = str_payload_packet and x = ex_env and s = "init_app Absent"
      and d = "PDict [(lit ''portnum'', PInt 1), (lit ''payload'', PStr (lit ''hi''))]"
      and v = "PStr (lit ''hi'')"]
  by (simp add: ex_defs lacks_def reports_def)

text \<open>A packet that is not a text message has its payload neither looked up nor decoded:
  whatever bytes it carries, the only line after the raw packet line is the one for a
  non-text packet.\<close>

lemma non_text_payload_not_decoded:
  "message_list (snd (on_message_received ex_env binary_packet (init_app Absent)))
     = [lit ''Raw packet received: {...}'', lit ''Received a non-text packet.'']"
  by (simp add: ex_defs on_message_received_def received_body_def log_message_def)

subsection \<open>Loading without a log file\<close>

text \<open>
  Claim C6 says that loading when the log file is missing leaves the visible log empty
  and reports \<open>No message log file found.\<close> The report is itself appended to the visible
  log, which therefore is not empty afterwards.
\<close>

theorem load_missing_file_log_not_empty:
  "message_list (snd (load_messages_from_file ex_env (init_app Absent)))
     = [lit ''No message log file found.'']
   \<and> message_list (snd (load_messages_from_file ex_env (init_app Absent))) \<noteq> []"
  by (simp add: init_app_def load_messages_from_file_def log_message_def)

text \<open>
  Claim C6 as the code has it: loading when the log file is missing raises nothing and
  leaves the visible log holding exactly the one line \<open>No message log file found.\<close>:
  nothing displayed before remains, no message line is added, and no file is created.
\<close>

theorem load_missing_file_reports:
  assumes "log_file s = Absent"
  shows "fst (load_messages_from_file x s) = None
    \<and> message_list (snd (load_messages_from_file x s)) = [lit ''No message log file found.'']
    \<and> log_file (snd (load_messages_from_file x s)) = Absent"
  using assms by (simp add: load_messages_from_file_def log_message_def)

theorem load_missing_file_reports_witness:
  "message_list (snd (load_messages_from_file ex_env
       ((init_app Absent)\<lparr>message_list := [lit ''Message from 42: hi'']\<rparr>)))
     = [lit ''No message log file found.'']"
  using load_missing_file_reports [of "(init_app Absent)\<lparr>message_list := [lit ''Message from 42: hi'']\<rparr>" ex_env]
  by (simp add: init_app_def)

subsection \<open>Listing nodes while disconnected\<close>

text \<open>
  Claim C7: without a device connection, \<open>output_nodes\<close> appends the line
  \<open>Device not connected. Please connect first.\<close> to the visible log and leaves the node
  list as it is.
\<close>

theorem output_nodes_disconnected:
  assumes "interface s = None"
  shows "fst (output_nodes x s) = None
    \<and> message_list (snd (output_nodes x s))
        = message_list s @ [lit ''Device not connected. Please connect first.'']
    \<and> prefix (lit ''Device not connected'') (lit ''Device not connected. Please connect first.'')
    \<and> node_list (snd (output_nodes x s)) = node_list s"
  using assms by (simp add: output_nodes_def log_message_def lit_def)

theorem output_nodes_disconnected_witness:
  "message_list (snd (output_nodes ex_env (init_app Absent)))
     = [lit ''Device not connected. Please connect first.'']
   \<and> node_list (snd (output_nodes ex_env (init_app Absent))) = [lit ''Nodes will appear here...'']"
  using output_nodes_disconnected [of "init_app Absent" ex_env]
  by (simp add: init_app_def)

subsection \<open>The log file is append-only\<close>

text \<open>
  Claim C8: no method truncates, rewrites or deletes the log file. Every method other than
  the receive callback, \<open>load_messages_from_file\<close> among them, leaves the file exactly as
  it is; the callback keeps the old text at the start of the file and adds either nothing
  or a text that ends with a line feed.
\<close>

theorem log_file_append_only:
  "log_file (snd (connect_to_device x s)) = log_file s
   \<and> log_file (snd (load_messages_from_file x s)) = log_file s
   \<and> log_file (snd (output_nodes x s)) = log_file s
   \<and> log_file (snd (send_message x s)) = log_file s
   \<and> log_file (snd (closeEvent x s)) = log_file s
   \<and> preserved (log_file s) (log_file (snd (on_message_received x packet s)))
   \<and> (\<exists>a. content (log_file (snd (on_message_received x packet s)))
             = content (log_file s) @ a \<and> (a = [] \<or> last a = 10))"
proof -
  have out: "log_file (snd (output_nodes x t)) = log_file t" for t
    by (simp add: output_nodes_def output_nodes_loop_log log_message_def split: option.splits)
  have out': "log_file u = log_file t" if "output_nodes x t = (r, u)" for t r u
    using out [of t] that by simp
  have "log_file (snd (connect_to_device x s)) = log_file s"
    by (auto simp: connect_to_device_def log_message_def Let_def
             split: sum.splits prod.splits option.splits dest!: out')
  moreover have "log_file (snd (load_messages_from_file x s)) = log_file s"
  proof -
    have f: "log_file (fold (\<lambda>message t. t\<lparr>message_list := message_list t @ [strip message]\<rparr>)
            ls t) = log_file t" for ls t
      by (induction ls arbitrary: t) simp_all
    show ?thesis
      by (simp add: f load_messages_from_file_def log_message_def Let_def
               split: sum.splits exn.splits)
  qed
  moreover note out [of s]
  moreover have "log_file (snd (send_message x s)) = log_file s"
    by (simp add: send_message_def log_message_def Let_def split: option.splits)
  moreover have "log_file (snd (closeEvent x s)) = log_file s"
    by (simp add: closeEvent_def Let_def split: option.splits)
  moreover have "preserved (log_file s) (log_file (snd (on_message_received x packet s)))"
    using on_message_received_log [of x packet s]
    by (cases "log_file s") (auto simp: preserved_def)
  moreover have "\<exists>a. content (log_file (snd (on_message_received x packet s)))
             = content (log_file s) @ a \<and> (a = [] \<or> last a = 10)"
    using on_message_received_log [of x packet s] by auto
  ultimately show ?thesis by blast
qed

theorem log_file_append_only_witness:
  "preserved (Present (lit ''old'' @ [10]))
     (log_file (snd (on_message_received ex_env text_packet (init_app (Present (lit ''old'' @ [10]))))))
   \<and> Present (lit ''old'' @ [10]) \<noteq> Absent
   \<and> log_file (snd (on_message_received ex_env text_packet (init_app (Present (lit ''old'' @ [10])))))
       = Present (lit ''old'' @ [10] @ lit ''Message from 42: hi'' @ [10])"
  using log_file_append_only [of ex_env "init_app (Present (lit ''old'' @ [10]))" text_packet]
  by (simp add: ex_defs on_message_received_def received_body_def log_message_def)

subsection \<open>Closing the window\<close>

text \<open>
  Claim C9: \<open>closeEvent\<close> calls the handle's \<open>close\<close> exactly once when a device
  connection is held, and makes no call into the device library when none is held.
\<close>

theorem closeEvent_close_calls:
  "calls (snd (closeEvent x s)) = (if interface s = None then calls s else calls s @ [CallClose])"
  by (simp add: closeEvent_def Let_def split: option.splits)

subsection \<open>Receiving a packet that is not a text message\<close>

text \<open>
  Claim C10: for a packet whose \<open>decoded\<close> entry has a \<open>portnum\<close> other than the text
  marker, the callback leaves the log file as it is and appends
  \<open>Received a non-text packet.\<close> to the visible log, after the raw packet line.
\<close>

theorem non_text_packet_not_saved:
  assumes "getitem packet (lit ''decoded'') = Inr d"
    and "getitem d (lit ''portnum'') = Inr portnum"
    and "portnum \<noteq> PInt (TEXT_MESSAGE_APP x)"
  shows "fst (on_message_received x packet s) = None
    \<and> log_file (snd (on_message_received x packet s)) = log_file s
    \<and> message_list (snd (on_message_received x packet s))
        = message_list s @ [lit ''Raw packet received: '' @ fmt x packet,
                            lit ''Received a non-text packet.'']"
  using assms by (simp add: on_message_received_def received_body_def log_message_def Let_def)

theorem non_text_packet_not_saved_witness:
  "log_file (snd (on_message_received ex_env binary_packet (init_app (Present [])))) = Present []
   \<and> message_list (snd (on_message_received ex_env binary_packet (init_app (Present []))))
       = [lit ''Raw packet received: {...}'', lit ''Received a non-text packet.'']"
  using non_text_packet_not_saved [of binary_packet "PDict [(lit ''portnum'', PInt 3), (lit ''payload'', PBytes [255])]"
      "PInt 3" ex_env "init_app (Present [])"]
  by (simp add: ex_defs)

end
